theory Spec2Isabelle
  imports Complex_Main "HOL-Library.Sublist"
begin

section \<open>Python values and failures\<close>

text \<open>
  Prices, weights and percentages are Python floats in the source; they are modelled as
  exact reals, so every statement below is about the arithmetic the code asks for, not
  about its rounding. An exception that leaves a function is a value of \<open>py_error\<close>.
\<close>

datatype py_error = ZeroDivisionError | IndexError | KeyError | TypeError

section \<open>Level merger\<close>

text \<open>
  \<^verbatim>\<open>merge_close_levels\<close> of \<^verbatim>\<open>core/utils.py\<close>. The loop keeps the list
  \<open>merged\<close>; each level is either averaged into \<open>merged[-1]\<close> or appended. The
  division by \<open>merged[-1]\<close> raises on a zero level.
\<close>

fun merge_loop :: "real \<Rightarrow> real list \<Rightarrow> real list \<Rightarrow> py_error + real list" where
  "merge_loop threshold merged [] = Inr merged"
| "merge_loop threshold merged (level # rest) =
     (if last merged = 0 then Inl ZeroDivisionError
      else if \<bar>level - last merged\<bar> / last merged \<le> threshold
        then merge_loop threshold (butlast merged @ [(last merged + level) / 2]) rest
        else merge_loop threshold (merged @ [level]) rest)"

definition merge_close_levels :: "real list \<Rightarrow> real \<Rightarrow> py_error + real list" where
  "merge_close_levels levels threshold =
     (if levels = [] then Inr []
      else let levels = sort levels in
        merge_loop threshold [hd levels] (tl levels))"

text \<open>
  \<^verbatim>\<open>AnalysisEngine._merge_levels\<close> repeats the same body, with the sorted list in a
  variable of its own and a default threshold of 0.0005.
\<close>

definition merge_levels :: "real list \<Rightarrow> real \<Rightarrow> py_error + real list" where
  "merge_levels levels threshold =
     (if levels = [] then Inr []
      else let sorted_levels = sort levels in
        merge_loop threshold [hd sorted_levels] (tl sorted_levels))"

definition default_merge_threshold :: real where
  "default_merge_threshold = 0.0005"

text \<open>
  Two adjacent levels are separated when the relative distance to the lower one exceeds
  the tolerance: the negation of the test the loop merges on.
\<close>

definition separated :: "real \<Rightarrow> real \<Rightarrow> real \<Rightarrow> bool" where
  "separated threshold a b = (threshold < \<bar>b - a\<bar> / a)"

definition well_separated :: "real \<Rightarrow> real list \<Rightarrow> bool" where
  "well_separated threshold xs = successively (separated threshold) xs"

section \<open>Calendar dates\<close>

text \<open>
  The risk manager compares \<^verbatim>\<open>datetime.now().date()\<close> with the day of the last reset
  and \<^verbatim>\<open>datetime.now().isocalendar()[1]\<close> with the week of the last reset. A reading
  of the clock is a calendar date and the seconds since midnight. The week number follows
  the algorithm of the Python standard library: day ordinals of the proleptic Gregorian
  calendar, week 1 being the week (Monday first) that holds the year's first Thursday.
\<close>

record date =
  d_year :: int
  d_month :: int
  d_day :: int

record datetime =
  dt_date :: date
  dt_seconds :: nat









section \<open>Detector results and the timeframe summarizer\<close>

text \<open>
  A detector returns a dictionary; the engine reads it with \<^verbatim>\<open>.get(key, default)\<close>,
  so every key may be absent (a detector that failed returns only an \<^verbatim>\<open>error\<close> key).
  A field is \<open>None\<close> when the key is absent.
\<close>

definition dict_get :: "'a option \<Rightarrow> 'a \<Rightarrow> 'a" where
  "dict_get entry fallback = (case entry of None \<Rightarrow> fallback | Some v \<Rightarrow> v)"

record detector_result =
  dr_signal :: "string option"
  dr_strength :: "real option"
  dr_support_levels :: "real list option"
  dr_resistance_levels :: "real list option"
  dr_patterns :: "string list option"
  dr_trend :: "string option"
  dr_trend_strength :: "real option"
  dr_last_price :: "real option"
  dr_atr :: "real option"

record timeframe_results =
  tr_ict :: detector_result
  tr_smc :: detector_result
  tr_price_action :: detector_result

record tf_summary =
  ts_signal :: string
  ts_confidence :: string
  ts_strength :: real
  ts_buy_signals :: nat
  ts_sell_signals :: nat
  ts_support_levels :: "real list"
  ts_resistance_levels :: "real list"
  ts_key_patterns :: "string list"

definition count_signals :: "string \<Rightarrow> string list \<Rightarrow> nat" where
  "count_signals wanted signals = length (filter (\<lambda>signal. signal = wanted) signals)"

definition extract_key_patterns :: "timeframe_results \<Rightarrow> string list" where
  "extract_key_patterns timeframe_results =
     (case dr_patterns (tr_ict timeframe_results) of None \<Rightarrow> []
        | Some ps \<Rightarrow> map (\<lambda>pattern. ''ICT: '' @ pattern) ps)
     @ (case dr_patterns (tr_smc timeframe_results) of None \<Rightarrow> []
        | Some ps \<Rightarrow> map (\<lambda>pattern. ''SMC: '' @ pattern) ps)
     @ (case dr_patterns (tr_price_action timeframe_results) of None \<Rightarrow> []
        | Some ps \<Rightarrow> map (\<lambda>pattern. ''PA: '' @ pattern) ps)"

text \<open>The three strategies in the order the source iterates over them.\<close>

definition strategies :: "timeframe_results \<Rightarrow> detector_result list" where
  "strategies timeframe_results =
     [tr_ict timeframe_results, tr_smc timeframe_results, tr_price_action timeframe_results]"

definition merge_if_any :: "real list \<Rightarrow> py_error + real list" where
  "merge_if_any levels =
     (if levels \<noteq> [] then merge_levels levels default_merge_threshold else Inr levels)"

definition create_timeframe_summary :: "timeframe_results \<Rightarrow> py_error + tf_summary" where
  "create_timeframe_summary timeframe_results =
     (let ict_signal = dict_get (dr_signal (tr_ict timeframe_results)) ''neutral'';
          smc_signal = dict_get (dr_signal (tr_smc timeframe_results)) ''neutral'';
          pa_signal = dict_get (dr_signal (tr_price_action timeframe_results)) ''neutral'';
          buy_count = count_signals ''buy'' [ict_signal, smc_signal, pa_signal];
          sell_count = count_signals ''sell'' [ict_signal, smc_signal, pa_signal];
          final_signal = (if buy_count > sell_count then ''buy''
                          else if sell_count > buy_count then ''sell''
                          else ''neutral'');
          confidence = (if buy_count = 3 \<or> sell_count = 3 then ''high''
                        else if buy_count = 2 \<or> sell_count = 2 then ''medium''
                        else ''low'');
          ict_strength = dict_get (dr_strength (tr_ict timeframe_results)) 0;
          smc_strength = dict_get (dr_strength (tr_smc timeframe_results)) 0;
          pa_strength = dict_get (dr_strength (tr_price_action timeframe_results)) 0;
          avg_strength = (ict_strength + smc_strength + pa_strength) / 3;
          support_levels = concat (map (\<lambda>d. dict_get (dr_support_levels d) [])
                                       (strategies timeframe_results));
          resistance_levels = concat (map (\<lambda>d. dict_get (dr_resistance_levels d) [])
                                          (strategies timeframe_results))
      in case merge_if_any support_levels of
           Inl e \<Rightarrow> Inl e
         | Inr support_levels \<Rightarrow>
             (case merge_if_any resistance_levels of
                Inl e \<Rightarrow> Inl e
              | Inr resistance_levels \<Rightarrow>
                  Inr \<lparr> ts_signal = final_signal,
                        ts_confidence = confidence,
                        ts_strength = avg_strength,
                        ts_buy_signals = buy_count,
                        ts_sell_signals = sell_count,
                        ts_support_levels = support_levels,
                        ts_resistance_levels = resistance_levels,
                        ts_key_patterns = extract_key_patterns timeframe_results \<rparr>))"

section \<open>Cross-timeframe aggregator\<close>

text \<open>
  \<^verbatim>\<open>results["timeframes"]\<close> is a dictionary in insertion order: an association list
  from timeframe name to its entry. \<^verbatim>\<open>results["news"]\<close> is the news analyzer's
  dictionary, whose \<^verbatim>\<open>impact\<close> key is absent when that analysis failed.
\<close>

record tf_entry =
  te_data_points :: nat
  te_analysis :: "timeframe_results option"
  te_summary :: "tf_summary option"

record news_result =
  nr_impact :: "real option"

record analysis_results =
  ar_symbol :: string
  ar_timeframes :: "(string \<times> tf_entry) list"
  ar_news :: "news_result option"

definition timeframe_weights :: "(string \<times> real) list" where
  "timeframe_weights =
     [(''M5'', 0.05), (''M15'', 0.10), (''H1'', 0.20), (''H4'', 0.30), (''D1'', 0.35)]"

text \<open>\<^verbatim>\<open>timeframe_weights.get(tf, 0.0)\<close>\<close>

definition weight_of :: "(string \<times> real) list \<Rightarrow> string \<Rightarrow> real" where
  "weight_of weights tf = dict_get (map_of weights tf) 0"

definition total_weight :: "string list \<Rightarrow> real" where
  "total_weight present = sum_list (map (weight_of timeframe_weights) present)"

text \<open>The in-place renormalization of the weights of the timeframes that are present.\<close>

definition normalized_weights :: "string list \<Rightarrow> (string \<times> real) list" where
  "normalized_weights present =
     (let total = total_weight present in
      if total > 0
      then map (\<lambda>(tf, w). if tf \<in> set present then (tf, w / total) else (tf, w))
             timeframe_weights
      else timeframe_weights)"

fun vote_weights ::
  "(string \<times> real) list \<Rightarrow> (string \<times> tf_entry) list \<Rightarrow> real \<times> real \<Rightarrow> real \<times> real" where
  "vote_weights weights [] acc = acc"
| "vote_weights weights ((tf, tf_data) # rest) (buy_weight, sell_weight) =
     (case te_summary tf_data of
        None \<Rightarrow> vote_weights weights rest (buy_weight, sell_weight)
      | Some summary \<Rightarrow>
          (let signal = ts_signal summary; tf_weight = weight_of weights tf in
           if signal = ''buy''
             then vote_weights weights rest (buy_weight + tf_weight, sell_weight)
           else if signal = ''sell''
             then vote_weights weights rest (buy_weight, sell_weight + tf_weight)
           else vote_weights weights rest (buy_weight, sell_weight)))"

text \<open>
  The news step: returns the two accumulators and \<open>news_impact\<close>, which stays 0.0 when
  there is no impact to read.
\<close>

fun add_news_impact :: "news_result option \<Rightarrow> real \<times> real \<Rightarrow> real \<times> real \<times> real" where
  "add_news_impact news (buy_weight, sell_weight) =
     (case news of
        None \<Rightarrow> (buy_weight, sell_weight, 0)
      | Some n \<Rightarrow>
          (case nr_impact n of
             None \<Rightarrow> (buy_weight, sell_weight, 0)
           | Some news_impact \<Rightarrow>
               if news_impact > 0
                 then (buy_weight + 0.1 * min news_impact 1.0, sell_weight, news_impact)
               else if news_impact < 0
                 then (buy_weight, sell_weight + 0.1 * min \<bar>news_impact\<bar> 1.0, news_impact)
               else (buy_weight, sell_weight, news_impact)))"

definition accumulated_weights :: "analysis_results \<Rightarrow> real \<times> real \<times> real" where
  "accumulated_weights results =
     add_news_impact (ar_news results)
       (vote_weights (normalized_weights (map fst (ar_timeframes results)))
          (ar_timeframes results) (0, 0))"

text \<open>\<^verbatim>\<open>max\<close> and \<^verbatim>\<open>min\<close> of a non-empty Python list.\<close>

definition py_max :: "real list \<Rightarrow> real" where
  "py_max xs = fold max (tl xs) (hd xs)"

definition py_min :: "real list \<Rightarrow> real" where
  "py_min xs = fold min (tl xs) (hd xs)"

text \<open>
  The data manager is outside the core: \<open>closes symbol tf\<close> is the \<^verbatim>\<open>close\<close> column
  of the bar series it returns (empty for an empty frame), or the exception it raised.
\<close>

type_synonym data_manager = "string \<Rightarrow> string \<Rightarrow> py_error + real list"

fun current_price_from :: "data_manager \<Rightarrow> analysis_results \<Rightarrow> string list \<Rightarrow> py_error + real option" where
  "current_price_from dm results [] = Inr None"
| "current_price_from dm results (tf # tfs) =
     (if tf \<in> set (map fst (ar_timeframes results)) then
        (case dm (ar_symbol results) tf of
           Inl e \<Rightarrow> Inl e
         | Inr df \<Rightarrow> if df \<noteq> [] then Inr (Some (last df))
                     else current_price_from dm results tfs)
      else current_price_from dm results tfs)"

definition summaries :: "analysis_results \<Rightarrow> tf_summary list" where
  "summaries results = concat (map (\<lambda>(tf, tf_data).
       case te_summary tf_data of None \<Rightarrow> [] | Some s \<Rightarrow> [s]) (ar_timeframes results))"

definition find_nearest_levels :: "data_manager \<Rightarrow> analysis_results \<Rightarrow> real option \<times> real option" where
  "find_nearest_levels dm results =
     (case current_price_from dm results [''H1'', ''M15'', ''M5'', ''H4'', ''D1''] of
        Inl e \<Rightarrow> (None, None)
      | Inr None \<Rightarrow> (None, None)
      | Inr (Some current_price) \<Rightarrow>
          (let all_supports = concat (map ts_support_levels (summaries results));
               all_resistances = concat (map ts_resistance_levels (summaries results));
               supports_below = filter (\<lambda>s. s < current_price) all_supports;
               resistances_above = filter (\<lambda>r. r > current_price) all_resistances;
               nearest_support = (if supports_below \<noteq> [] then Some (py_max supports_below) else None);
               nearest_resistance =
                 (if resistances_above \<noteq> [] then Some (py_min resistances_above) else None)
           in (nearest_support, nearest_resistance)))"

definition identify_key_timeframes :: "analysis_results \<Rightarrow> string list" where
  "identify_key_timeframes results =
     concat (map (\<lambda>(tf, tf_data).
       case te_summary tf_data of
         None \<Rightarrow> []
       | Some s \<Rightarrow> if ts_signal s \<noteq> ''neutral'' \<and> ts_confidence s \<in> set [''medium'', ''high'']
                   then [tf] else []) (ar_timeframes results))"

text \<open>
  The trend correction reads the price-action result of D1, else of H4; the loop stops at
  the first of the two that has an analysis.
\<close>

fun trend_correction :: "analysis_results \<Rightarrow> string \<Rightarrow> string list \<Rightarrow> real" where
  "trend_correction results signal [] = 0"
| "trend_correction results signal (tf # tfs) =
     (case map_of (ar_timeframes results) tf of
        None \<Rightarrow> trend_correction results signal tfs
      | Some tf_data \<Rightarrow>
          (case te_analysis tf_data of
             None \<Rightarrow> trend_correction results signal tfs
           | Some analysis \<Rightarrow>
               (let pa_data = tr_price_action analysis;
                    trend = dict_get (dr_trend pa_data) ''sideways'';
                    trend_strength = dict_get (dr_trend_strength pa_data) 0
                in if (signal = ''buy'' \<and> trend = ''bullish'') \<or> (signal = ''sell'' \<and> trend = ''bearish'')
                     then min (trend_strength * 0.15) 15
                   else if (signal = ''buy'' \<and> trend = ''bearish'') \<or> (signal = ''sell'' \<and> trend = ''bullish'')
                     then - min (trend_strength * 0.2) 20
                   else 0)))"

definition calculate_success_probability :: "analysis_results \<Rightarrow> string \<Rightarrow> real \<Rightarrow> real" where
  "calculate_success_probability results signal signal_strength =
     (let base_probability = signal_strength;
          timeframe_confirmations =
            length (filter (\<lambda>s. ts_signal s = signal) (summaries results));
          confirmation_bonus = min (real timeframe_confirmations * 5) 20;
          news_correction =
            (case ar_news results of
               None \<Rightarrow> 0
             | Some n \<Rightarrow>
                 (let news_impact = dict_get (nr_impact n) 0 in
                  if (signal = ''buy'' \<and> news_impact > 0) \<or> (signal = ''sell'' \<and> news_impact < 0)
                    then min (\<bar>news_impact\<bar> * 10) 10
                  else if (signal = ''buy'' \<and> news_impact < 0) \<or> (signal = ''sell'' \<and> news_impact > 0)
                    then - min (\<bar>news_impact\<bar> * 10) 15
                  else 0));
          total_probability = base_probability + confirmation_bonus + news_correction
                              + trend_correction results signal [''D1'', ''H4'']
      in max 0 (min total_probability 100))"

record aggregate_summary =
  as_signal :: string
  as_confidence :: string
  as_strength :: real
  as_success_probability :: real
  as_buy_weight :: real
  as_sell_weight :: real
  as_news_impact :: real
  as_nearest_support :: "real option"
  as_nearest_resistance :: "real option"
  as_key_timeframes :: "string list"

definition create_summary :: "data_manager \<Rightarrow> analysis_results \<Rightarrow> aggregate_summary" where
  "create_summary dm results =
     (case accumulated_weights results of (buy_weight, sell_weight, news_impact) \<Rightarrow>
        (let (final_signal, signal_strength) =
               (if buy_weight > sell_weight + 0.1 then (''buy'', buy_weight)
                else if sell_weight > buy_weight + 0.1 then (''sell'', sell_weight)
                else (''neutral'', max buy_weight sell_weight));
             signal_strength = min (signal_strength * 100) 100;
             confidence = (if signal_strength > 70 then ''high''
                           else if signal_strength > 40 then ''medium''
                           else ''low'');
             (nearest_support, nearest_resistance) = find_nearest_levels dm results;
             success_probability =
               calculate_success_probability results final_signal signal_strength
         in \<lparr> as_signal = final_signal,
               as_confidence = confidence,
               as_strength = signal_strength,
               as_success_probability = success_probability,
               as_buy_weight = buy_weight * 100,
               as_sell_weight = sell_weight * 100,
               as_news_impact = news_impact,
               as_nearest_support = nearest_support,
               as_nearest_resistance = nearest_resistance,
               as_key_timeframes = identify_key_timeframes results \<rparr>))"

subsection \<open>Vocabulary for the statements about the engine\<close>

text \<open>The three detector signals as the summarizer reads them, in source order.\<close>

definition votes :: "timeframe_results \<Rightarrow> string list" where
  "votes timeframe_results =
     map (\<lambda>d. dict_get (dr_signal d) ''neutral'') (strategies timeframe_results)"

text \<open>Every support and resistance level the three detectors report is a positive price.\<close>

definition positive_levels :: "timeframe_results \<Rightarrow> bool" where
  "positive_levels timeframe_results =
     list_all (\<lambda>d. list_all (\<lambda>x. 0 < x) (dict_get (dr_support_levels d) [])
                  \<and> list_all (\<lambda>x. 0 < x) (dict_get (dr_resistance_levels d) []))
       (strategies timeframe_results)"

definition known_timeframes :: "string list" where
  "known_timeframes = map fst timeframe_weights"

text \<open>A detector result that carries only a signal and a strength.\<close>

definition plain_result :: "string \<Rightarrow> real \<Rightarrow> detector_result" where
  "plain_result signal strength =
     \<lparr> dr_signal = Some signal, dr_strength = Some strength,
       dr_support_levels = Some [], dr_resistance_levels = Some [],
       dr_patterns = Some [], dr_trend = None, dr_trend_strength = None,
       dr_last_price = None, dr_atr = None \<rparr>"

definition three_results ::
  "detector_result \<Rightarrow> detector_result \<Rightarrow> detector_result \<Rightarrow> timeframe_results" where
  "three_results a b c = \<lparr> tr_ict = a, tr_smc = b, tr_price_action = c \<rparr>"

text \<open>Analysis results with no timeframe and a news impact.\<close>

definition news_only :: "real \<Rightarrow> analysis_results" where
  "news_only impact =
     \<lparr> ar_symbol = ''EURUSD'', ar_timeframes = [],
       ar_news = Some \<lparr> nr_impact = Some impact \<rparr> \<rparr>"


section \<open>Price-action detector: the signal from the point system\<close>

text \<open>
  \<^verbatim>\<open>PriceActionStrategy._generate_signal\<close> reads the analysis dictionary that
  \<^verbatim>\<open>analyze\<close> has filled and the last close of the bar series. \<^verbatim>\<open>x in s\<close> on
  strings is the contiguous-substring test.
\<close>

definition str_in :: "string \<Rightarrow> string \<Rightarrow> bool" where
  "str_in needle haystack = sublist needle haystack"

record candle_pattern =
  cp_index :: nat
  cp_pattern :: string
  cp_signal :: string
  cp_strength :: real

record momentum_signal =
  mo_indicator :: string
  mo_value :: real
  mo_signal :: string
  mo_strength :: real

record pa_analysis =
  pa_trend :: "string option"
  pa_trend_strength :: "real option"
  pa_candle_patterns :: "candle_pattern list option"
  pa_momentum_signals :: "momentum_signal list option"
  pa_patterns :: "string list option"
  pa_pivots_classic :: "(string \<times> real) list option"

type_synonym scores = "real \<times> real"

fun score_trend :: "pa_analysis \<Rightarrow> scores \<Rightarrow> scores" where
  "score_trend analysis_results (buy_score, sell_score) =
     (let trend = dict_get (pa_trend analysis_results) ''sideways'';
          trend_strength = dict_get (pa_trend_strength analysis_results) 0
      in if trend = ''bullish'' then (buy_score + trend_strength / 20, sell_score)
         else if trend = ''bearish'' then (buy_score, sell_score + trend_strength / 20)
         else (buy_score, sell_score))"

fun score_candle_patterns :: "candle_pattern list \<Rightarrow> scores \<Rightarrow> scores" where
  "score_candle_patterns [] acc = acc"
| "score_candle_patterns (pattern # rest) (buy_score, sell_score) =
     (if cp_signal pattern = ''bullish''
        then score_candle_patterns rest (buy_score + cp_strength pattern / 20, sell_score)
      else if cp_signal pattern = ''bearish''
        then score_candle_patterns rest (buy_score, sell_score + cp_strength pattern / 20)
      else score_candle_patterns rest (buy_score, sell_score))"

fun score_momentum :: "momentum_signal list \<Rightarrow> scores \<Rightarrow> scores" where
  "score_momentum [] acc = acc"
| "score_momentum (signal_data # rest) (buy_score, sell_score) =
     (if mo_signal signal_data = ''buy''
        then score_momentum rest (buy_score + mo_strength signal_data / 20, sell_score)
      else if mo_signal signal_data = ''sell''
        then score_momentum rest (buy_score, sell_score + mo_strength signal_data / 20)
      else score_momentum rest (buy_score, sell_score))"

fun score_patterns :: "string list \<Rightarrow> scores \<Rightarrow> scores" where
  "score_patterns [] acc = acc"
| "score_patterns (pattern # rest) (buy_score, sell_score) =
     (if str_in ''Bullish'' pattern \<or> str_in ''Support'' pattern \<or> str_in ''Bottom'' pattern
        then score_patterns rest (buy_score + 2.5, sell_score)
      else if str_in ''Bearish'' pattern \<or> str_in ''Resistance'' pattern \<or> str_in ''Top'' pattern
        then score_patterns rest (buy_score, sell_score + 2.5)
      else score_patterns rest (buy_score, sell_score))"

text \<open>
  The pivot loops: \<open>(4 - int(level_name[1])) * 0.5\<close> is 1.5, 1.0 and 0.5 for the levels
  numbered 1, 2 and 3. The last close comes from a data frame, so a zero price makes the
  quotient infinite or undefined without an exception and the proximity test fails; with
  division by zero equal to zero the test fails as well.
\<close>

fun score_supports :: "(string \<times> real) list \<Rightarrow> real \<Rightarrow> (string \<times> real) list \<Rightarrow> real \<Rightarrow> real" where
  "score_supports pivots last_price [] buy_score = buy_score"
| "score_supports pivots last_price ((level_name, points) # rest) buy_score =
     (case map_of pivots level_name of
        None \<Rightarrow> score_supports pivots last_price rest buy_score
      | Some level \<Rightarrow>
          if 0 < (last_price - level) / last_price \<and> (last_price - level) / last_price < 0.005
            then score_supports pivots last_price rest (buy_score + points)
          else score_supports pivots last_price rest buy_score)"

fun score_resistances :: "(string \<times> real) list \<Rightarrow> real \<Rightarrow> (string \<times> real) list \<Rightarrow> real \<Rightarrow> real" where
  "score_resistances pivots last_price [] sell_score = sell_score"
| "score_resistances pivots last_price ((level_name, points) # rest) sell_score =
     (case map_of pivots level_name of
        None \<Rightarrow> score_resistances pivots last_price rest sell_score
      | Some level \<Rightarrow>
          if 0 < (level - last_price) / last_price \<and> (level - last_price) / last_price < 0.005
            then score_resistances pivots last_price rest (sell_score + points)
          else score_resistances pivots last_price rest sell_score)"

fun score_pivots :: "pa_analysis \<Rightarrow> real \<Rightarrow> scores \<Rightarrow> scores" where
  "score_pivots analysis_results last_price (buy_score, sell_score) =
     (let pivots = dict_get (pa_pivots_classic analysis_results) [] in
      if pivots \<noteq> [] then
        (score_supports pivots last_price [(''s1'', 1.5), (''s2'', 1.0), (''s3'', 0.5)] buy_score,
         score_resistances pivots last_price [(''r1'', 1.5), (''r2'', 1.0), (''r3'', 0.5)] sell_score)
      else (buy_score, sell_score))"

definition pa_scores :: "real \<Rightarrow> pa_analysis \<Rightarrow> scores" where
  "pa_scores last_price analysis_results =
     score_pivots analysis_results last_price
       (score_patterns (dict_get (pa_patterns analysis_results) [])
         (score_momentum (dict_get (pa_momentum_signals analysis_results) [])
           (score_candle_patterns (dict_get (pa_candle_patterns analysis_results) [])
             (score_trend analysis_results (0, 0)))))"

text \<open>
  \<open>closes\<close> is the \<^verbatim>\<open>close\<close> column. Reading the last close of an empty frame raises
  inside the \<^verbatim>\<open>try\<close>, and the handler returns neutral with strength 0.
\<close>

definition pa_generate_signal :: "real list \<Rightarrow> pa_analysis \<Rightarrow> string \<times> real" where
  "pa_generate_signal closes analysis_results =
     (if closes = [] then (''neutral'', 0)
      else case pa_scores (last closes) analysis_results of (buy_score, sell_score) \<Rightarrow>
        if buy_score > sell_score + 3 then (''buy'', min 100 (buy_score * 10))
        else if sell_score > buy_score + 3 then (''sell'', min 100 (sell_score * 10))
        else (''neutral'', max buy_score sell_score * 5))"

text \<open>
  An analysis of the shape \<^verbatim>\<open>analyze\<close> builds: the last five candles alternate
  bullish and bearish, each a marubozu (strength 80) that engulfs the one before
  (strength 90), while RSI and Stochastic report overbought. The candle list is in the
  order \<^verbatim>\<open>_identify_candle_patterns\<close> leaves it, by descending strength.
\<close>

definition candle :: "nat \<Rightarrow> string \<Rightarrow> string \<Rightarrow> real \<Rightarrow> candle_pattern" where
  "candle i name signal strength =
     \<lparr> cp_index = i, cp_pattern = name, cp_signal = signal, cp_strength = strength \<rparr>"

definition contested_analysis :: pa_analysis where
  "contested_analysis =
     \<lparr> pa_trend = Some ''sideways'',
       pa_trend_strength = Some 0,
       pa_candle_patterns = Some
         [candle 25 ''Bullish Engulfing'' ''bullish'' 90,
          candle 26 ''Bearish Engulfing'' ''bearish'' 90,
          candle 27 ''Bullish Engulfing'' ''bullish'' 90,
          candle 28 ''Bearish Engulfing'' ''bearish'' 90,
          candle 29 ''Bullish Engulfing'' ''bullish'' 90,
          candle 25 ''Bullish Marubozu'' ''bullish'' 80,
          candle 26 ''Bearish Marubozu'' ''bearish'' 80,
          candle 27 ''Bullish Marubozu'' ''bullish'' 80,
          candle 28 ''Bearish Marubozu'' ''bearish'' 80,
          candle 29 ''Bullish Marubozu'' ''bullish'' 80],
       pa_momentum_signals = Some
         [\<lparr> mo_indicator = ''RSI'', mo_value = 75, mo_signal = ''sell'', mo_strength = 70 \<rparr>,
          \<lparr> mo_indicator = ''Stochastic'', mo_value = 90, mo_signal = ''sell'',
            mo_strength = 60 \<rparr>],
       pa_patterns = Some [],
       pa_pivots_classic = Some
         [(''pivot'', 1.1), (''r1'', 1.12), (''r2'', 1.14), (''r3'', 1.16),
          (''s1'', 1.08), (''s2'', 1.06), (''s3'', 1.04)] \<rparr>"

section \<open>Signal fusion\<close>

text \<open>
  \<^verbatim>\<open>SignalGenerator\<close> of \<^verbatim>\<open>trading/signal_generator.py\<close>. The analysis
  dictionary it receives is the engine's output (or an \<^verbatim>\<open>error\<close> dictionary), the
  prediction comes from the forecaster.
\<close>

record prediction =
  pr_error :: bool
  pr_direction :: "string option"
  pr_confidence :: "real option"






record execution_result =
  er_ticket :: nat
  er_price :: real

record candidate_signal =
  cs_id :: string
  cs_symbol :: string
  cs_signal :: string
  cs_entry_price :: real
  cs_stop_loss :: real
  cs_take_profit :: real
  cs_risk_reward :: real
  cs_strength :: real
  cs_success_probability :: real
  cs_timestamp :: datetime
  cs_timeframes :: "string list"
  cs_analysis_summary :: "aggregate_summary option"
  cs_prediction :: prediction
  cs_executed :: bool
  cs_status :: string
  cs_execution_details :: "execution_result option"
  cs_execution_time :: "datetime option"

















text \<open>
  The signal store is the list \<^verbatim>\<open>signal_history\<close>; \<^verbatim>\<open>get_signal_by_id\<close> returns
  the first entry with the identifier, and \<^verbatim>\<open>update_signal_status\<close> mutates that entry
  in place.
\<close>

fun get_signal_by_id :: "candidate_signal list \<Rightarrow> string \<Rightarrow> candidate_signal option" where
  "get_signal_by_id [] signal_id = None"
| "get_signal_by_id (signal # rest) signal_id =
     (if cs_id signal = signal_id then Some signal else get_signal_by_id rest signal_id)"

definition apply_status :: "datetime \<Rightarrow> string \<Rightarrow> execution_result option \<Rightarrow> candidate_signal \<Rightarrow> candidate_signal" where
  "apply_status now status execution_details signal =
     (let signal = signal\<lparr> cs_status := status \<rparr> in
      if status = ''executed'' \<and> execution_details \<noteq> None
        then signal\<lparr> cs_executed := True, cs_execution_details := execution_details,
                     cs_execution_time := Some now \<rparr>
      else signal)"

fun update_first :: "string \<Rightarrow> (candidate_signal \<Rightarrow> candidate_signal) \<Rightarrow> candidate_signal list \<Rightarrow> candidate_signal list" where
  "update_first signal_id f [] = []"
| "update_first signal_id f (signal # rest) =
     (if cs_id signal = signal_id then f signal # rest
      else signal # update_first signal_id f rest)"

definition update_signal_status ::
  "datetime \<Rightarrow> string \<Rightarrow> string \<Rightarrow> execution_result option \<Rightarrow> candidate_signal list
     \<Rightarrow> bool \<times> candidate_signal list" where
  "update_signal_status now signal_id status execution_details signal_history =
     (case get_signal_by_id signal_history signal_id of
        None \<Rightarrow> (False, signal_history)
      | Some signal \<Rightarrow>
          (True, update_first signal_id (apply_status now status execution_details)
                   signal_history))"

subsection \<open>A concrete scan\<close>






section \<open>Risk manager\<close>





























section \<open>Confirmation handlers\<close>






section \<open>Vocabulary and a concrete account for the risk statements\<close>











section \<open>Liquidity and order-block detector\<close>

text \<open>
  \<^verbatim>\<open>ICTStrategy\<close> of \<^verbatim>\<open>analysis/ict_strategy.py\<close>. A data frame is the list of its
  bars, \<^verbatim>\<open>df.iloc[i]\<close> is the bar at position \<open>i\<close>. Prices are positive and a bar's high
  is not below its low; a quotient by a zero price or by a zero average range is infinite
  or undefined for the source and has no counterpart here.
\<close>

record bar =
  b_open :: real
  b_high :: real
  b_low :: real
  b_close :: real

type_synonym frame = "bar list"

definition np_mean :: "real list \<Rightarrow> real" where
  "np_mean xs = sum_list xs / real (length xs)"

definition avg_bar_range :: "frame \<Rightarrow> real" where
  "avg_bar_range df = np_mean (map (\<lambda>b. b_high b - b_low b) df)"

definition bar_range :: "frame \<Rightarrow> nat \<Rightarrow> real" where
  "bar_range df i = b_high (df ! i) - b_low (df ! i)"

text \<open>\<^verbatim>\<open>sorted(xs, key=strength, reverse=True)\<close>: descending and stable.\<close>

definition by_strength_desc :: "('a \<Rightarrow> real) \<Rightarrow> 'a list \<Rightarrow> 'a list" where
  "by_strength_desc strength xs = sort_key (\<lambda>x. - strength x) xs"

subsection \<open>Liquidity levels\<close>

record liquidity_level =
  ll_price :: real
  ll_index :: nat
  ll_type :: string
  ll_equal_points :: nat
  ll_strength :: real

record liquidity_levels =
  lq_buy_side :: "liquidity_level list"
  lq_sell_side :: "liquidity_level list"

definition swing_high :: "frame \<Rightarrow> nat \<Rightarrow> bool" where
  "swing_high df i =
     (b_high (df ! i) > b_high (df ! (i - 1)) \<and> b_high (df ! i) > b_high (df ! (i - 2))
      \<and> b_high (df ! i) > b_high (df ! (i + 1)) \<and> b_high (df ! i) > b_high (df ! (i + 2)))"

definition swing_low :: "frame \<Rightarrow> nat \<Rightarrow> bool" where
  "swing_low df i =
     (b_low (df ! i) < b_low (df ! (i - 1)) \<and> b_low (df ! i) < b_low (df ! (i - 2))
      \<and> b_low (df ! i) < b_low (df ! (i + 1)) \<and> b_low (df ! i) < b_low (df ! (i + 2)))"

text \<open>
  The bars among the fifty before \<open>i\<close> whose value is within 0.1 percent of the base
  value; \<open>i - 50\<close> on the naturals is \<^verbatim>\<open>max(0, i-50)\<close>.
\<close>

definition equal_points :: "(bar \<Rightarrow> real) \<Rightarrow> frame \<Rightarrow> nat \<Rightarrow> nat list" where
  "equal_points price df i =
     filter (\<lambda>j. \<bar>price (df ! j) - price (df ! i)\<bar> / price (df ! i) < 0.001) [i - 50 ..< i]"

definition liquidity_level_at :: "(bar \<Rightarrow> real) \<Rightarrow> string \<Rightarrow> frame \<Rightarrow> nat \<Rightarrow> liquidity_level" where
  "liquidity_level_at price kind df i =
     \<lparr> ll_price = price (df ! i), ll_index = i, ll_type = kind,
       ll_equal_points = length (equal_points price df i),
       ll_strength = 1 + real (length (equal_points price df i)) * 0.2 \<rparr>"

definition find_liquidity_levels :: "frame \<Rightarrow> liquidity_levels" where
  "find_liquidity_levels df =
     (if length df < 30 then \<lparr> lq_buy_side = [], lq_sell_side = [] \<rparr>
      else
        (let sell_side = map (liquidity_level_at b_high ''swing_high'' df)
                           (filter (swing_high df) [5 ..< length df - 5]);
             buy_side = map (liquidity_level_at b_low ''swing_low'' df)
                          (filter (swing_low df) [5 ..< length df - 5])
         in \<lparr> lq_buy_side = take 5 (by_strength_desc ll_strength buy_side),
               lq_sell_side = take 5 (by_strength_desc ll_strength sell_side) \<rparr>))"

subsection \<open>Order blocks and breaker blocks\<close>

record block =
  bk_top :: real
  bk_bottom :: real
  bk_index :: nat
  bk_structure_break :: "string option"
  bk_strength :: real

record blocks =
  bl_bullish :: "block list"
  bl_bearish :: "block list"

definition red :: "frame \<Rightarrow> nat \<Rightarrow> bool" where
  "red df j = (b_close (df ! j) < b_open (df ! j))"

definition green :: "frame \<Rightarrow> nat \<Rightarrow> bool" where
  "green df j = (b_close (df ! j) > b_open (df ! j))"

text \<open>
  The loop over the strong moves fills both lists; each list is given here by its own
  pass, in the order of the loop. A strong green bar looks for the first red bar among the
  three before it, a strong red bar for the first green one.
\<close>

definition bearish_block_for :: "frame \<Rightarrow> real \<Rightarrow> nat \<Rightarrow> block list" where
  "bearish_block_for df avg_range i =
     (case find (\<lambda>j. red df j \<and> b_low (df ! j) < b_low (df ! i)) [i - 3 ..< i] of
        None \<Rightarrow> []
      | Some j \<Rightarrow> [\<lparr> bk_top = b_open (df ! j), bk_bottom = b_close (df ! j), bk_index = j,
                     bk_structure_break = None,
                     bk_strength = bar_range df i / avg_range \<rparr>])"

definition bullish_block_for :: "frame \<Rightarrow> real \<Rightarrow> nat \<Rightarrow> block list" where
  "bullish_block_for df avg_range i =
     (case find (\<lambda>j. green df j \<and> b_high (df ! j) > b_high (df ! i)) [i - 3 ..< i] of
        None \<Rightarrow> []
      | Some j \<Rightarrow> [\<lparr> bk_top = b_close (df ! j), bk_bottom = b_open (df ! j), bk_index = j,
                     bk_structure_break = None,
                     bk_strength = bar_range df i / avg_range \<rparr>])"

definition find_order_blocks :: "frame \<Rightarrow> blocks" where
  "find_order_blocks df =
     (if length df < 20 then \<lparr> bl_bullish = [], bl_bearish = [] \<rparr>
      else
        (let avg_range = avg_bar_range df;
             strong_move_threshold = 2 * avg_range;
             strong_green = (\<lambda>i. green df i \<and> bar_range df i > strong_move_threshold);
             strong_red = (\<lambda>i. red df i \<and> bar_range df i > strong_move_threshold);
             bearish = concat (map (\<lambda>i. if strong_green i
                                           then bearish_block_for df avg_range i else [])
                                 [3 ..< length df - 1]);
             bullish = concat (map (\<lambda>i. if strong_green i then []
                                           else if strong_red i
                                             then bullish_block_for df avg_range i else [])
                                 [3 ..< length df - 1])
         in \<lparr> bl_bullish = take 3 (by_strength_desc bk_strength bullish),
               bl_bearish = take 3 (by_strength_desc bk_strength bearish) \<rparr>))"

text \<open>Consecutive swing points \<open>(previous, current)\<close>, each an index with its price.\<close>

definition swing_points :: "(frame \<Rightarrow> nat \<Rightarrow> bool) \<Rightarrow> (bar \<Rightarrow> real) \<Rightarrow> frame \<Rightarrow> (nat \<times> real) list" where
  "swing_points is_swing price df =
     map (\<lambda>i. (i, price (df ! i))) (filter (is_swing df) [5 ..< length df - 5])"

definition bullish_breaker_for :: "frame \<Rightarrow> (nat \<times> real) \<times> (nat \<times> real) \<Rightarrow> block list" where
  "bullish_breaker_for df pair =
     (case pair of ((prev_index, prev_high), (start_idx, high)) \<Rightarrow>
        if high < prev_high then
          (case find (green df) [start_idx ..< min (start_idx + 20) (length df - 1)] of
             None \<Rightarrow> []
           | Some j \<Rightarrow> [\<lparr> bk_top = b_close (df ! j), bk_bottom = b_open (df ! j),
                          bk_index = j, bk_structure_break = Some ''lower_high'',
                          bk_strength = 1 + (prev_high - high) / prev_high \<rparr>])
        else [])"

definition bearish_breaker_for :: "frame \<Rightarrow> (nat \<times> real) \<times> (nat \<times> real) \<Rightarrow> block list" where
  "bearish_breaker_for df pair =
     (case pair of ((prev_index, prev_low), (start_idx, low)) \<Rightarrow>
        if low > prev_low then
          (case find (red df) [start_idx ..< min (start_idx + 20) (length df - 1)] of
             None \<Rightarrow> []
           | Some j \<Rightarrow> [\<lparr> bk_top = b_open (df ! j), bk_bottom = b_close (df ! j),
                          bk_index = j, bk_structure_break = Some ''higher_low'',
                          bk_strength = 1 + (low - prev_low) / prev_low \<rparr>])
        else [])"

definition find_breaker_blocks :: "frame \<Rightarrow> blocks" where
  "find_breaker_blocks df =
     (if length df < 50 then \<lparr> bl_bullish = [], bl_bearish = [] \<rparr>
      else
        (let highs = swing_points swing_high b_high df;
             lows = swing_points swing_low b_low df;
             bullish = concat (map (bullish_breaker_for df) (zip highs (tl highs)));
             bearish = concat (map (bearish_breaker_for df) (zip lows (tl lows)))
         in \<lparr> bl_bullish = by_strength_desc bk_strength bullish,
               bl_bearish = by_strength_desc bk_strength bearish \<rparr>))"

subsection \<open>Fair-value gaps\<close>

record gap =
  gp_top :: real
  gp_bottom :: real
  gp_index :: nat
  gp_size :: real
  gp_strength :: real

record gaps =
  fv_bullish :: "gap list"
  fv_bearish :: "gap list"

definition bullish_gap_at :: "frame \<Rightarrow> real \<Rightarrow> nat \<Rightarrow> gap list" where
  "bullish_gap_at df avg_range i =
     (if b_high (df ! (i - 1)) < b_low (df ! (i + 1)) then
        (let gap_size = b_low (df ! (i + 1)) - b_high (df ! (i - 1)) in
         if gap_size > 0.3 * avg_range
           then [\<lparr> gp_top = b_low (df ! (i + 1)), gp_bottom = b_high (df ! (i - 1)),
                   gp_index = i, gp_size = gap_size, gp_strength = gap_size / avg_range \<rparr>]
         else [])
      else [])"

definition bearish_gap_at :: "frame \<Rightarrow> real \<Rightarrow> nat \<Rightarrow> gap list" where
  "bearish_gap_at df avg_range i =
     (if b_low (df ! (i - 1)) > b_high (df ! (i + 1)) then
        (let gap_size = b_low (df ! (i - 1)) - b_high (df ! (i + 1)) in
         if gap_size > 0.3 * avg_range
           then [\<lparr> gp_top = b_low (df ! (i - 1)), gp_bottom = b_high (df ! (i + 1)),
                   gp_index = i, gp_size = gap_size, gp_strength = gap_size / avg_range \<rparr>]
         else [])
      else [])"

definition find_fair_value_gaps :: "frame \<Rightarrow> gaps" where
  "find_fair_value_gaps df =
     (if length df < 10 then \<lparr> fv_bullish = [], fv_bearish = [] \<rparr>
      else
        (let avg_range = avg_bar_range df;
             bullish = concat (map (bullish_gap_at df avg_range) [1 ..< length df - 1]);
             bearish = concat (map (bearish_gap_at df avg_range) [1 ..< length df - 1])
         in \<lparr> fv_bullish = take 3 (by_strength_desc gp_strength bullish),
               fv_bearish = take 3 (by_strength_desc gp_strength bearish) \<rparr>))"

subsection \<open>Confluence patterns\<close>

definition overlaps :: "gap \<Rightarrow> block \<Rightarrow> bool" where
  "overlaps g b = (gp_bottom g \<le> bk_top b \<and> gp_top g \<ge> bk_bottom b)"

text \<open>One tag for every element of \<open>xs\<close> that meets some element of \<open>ys\<close>.\<close>

definition tag_each :: "string \<Rightarrow> ('a \<Rightarrow> 'b \<Rightarrow> bool) \<Rightarrow> 'a list \<Rightarrow> 'b list \<Rightarrow> string list" where
  "tag_each tag meets xs ys =
     concat (map (\<lambda>x. if list_ex (meets x) ys then [tag] else []) xs)"

text \<open>One tag when some element of \<open>xs\<close> passes the test.\<close>

definition tag_once :: "string \<Rightarrow> ('a \<Rightarrow> bool) \<Rightarrow> 'a list \<Rightarrow> string list" where
  "tag_once tag test xs = (if list_ex test xs then [tag] else [])"

definition liquidity_sweep :: "frame \<Rightarrow> liquidity_levels \<Rightarrow> string list" where
  "liquidity_sweep df liquidity_levels =
     (if lq_buy_side liquidity_levels \<noteq> [] \<and> length df > 100 then
        (let recent_liquidity =
               filter (\<lambda>level. int (ll_index level) > int (length df) - 60)
                 (lq_buy_side liquidity_levels)
         in if length recent_liquidity \<ge> 2 then
              (let ranges = map (\<lambda>(a, b). \<bar>ll_price a - ll_price b\<bar>)
                              (zip recent_liquidity (tl recent_liquidity))
               in if py_min ranges < 0.5 * avg_bar_range df
                    then [''Liquidity Sweep Pattern (Buy Side)''] else [])
            else [])
      else [])"

definition delivery_area :: "frame \<Rightarrow> blocks \<Rightarrow> string list" where
  "delivery_area df order_blocks =
     (let bullish_blocks = bl_bullish order_blocks in
      if length bullish_blocks \<ge> 2 then
        (let range_size = py_max (map bk_top bullish_blocks)
                          - py_min (map bk_bottom bullish_blocks)
         in if range_size < 2 * avg_bar_range df
              then [''Internal Price Delivery Area (Bullish)''] else [])
      else [])"

text \<open>\<^verbatim>\<open>list(set(patterns))\<close>: the tags without repetition, in no particular order.\<close>

definition identify_ict_patterns ::
  "frame \<Rightarrow> liquidity_levels \<Rightarrow> blocks \<Rightarrow> gaps \<Rightarrow> string list" where
  "identify_ict_patterns df liquidity_levels order_blocks fair_value_gaps =
     (let last_price = b_close (last df) in
      remdups
        (liquidity_sweep df liquidity_levels
         @ delivery_area df order_blocks
         @ tag_each ''Bullish Order Block with Fair Value Gap'' overlaps
             (fv_bullish fair_value_gaps) (bl_bullish order_blocks)
         @ tag_each ''Bearish Order Block with Fair Value Gap'' overlaps
             (fv_bearish fair_value_gaps) (bl_bearish order_blocks)
         @ tag_each ''Bullish Order Block at Buy Side Liquidity''
             (\<lambda>level block. \<bar>ll_price level - bk_bottom block\<bar> / ll_price level < 0.002)
             (lq_buy_side liquidity_levels) (bl_bullish order_blocks)
         @ tag_each ''Bearish Order Block at Sell Side Liquidity''
             (\<lambda>level block. \<bar>ll_price level - bk_top block\<bar> / ll_price level < 0.002)
             (lq_sell_side liquidity_levels) (bl_bearish order_blocks)
         @ tag_once ''Price Approaching Bullish Fair Value Gap''
             (\<lambda>g. last_price < gp_bottom g \<and> (gp_bottom g - last_price) / last_price < 0.005)
             (fv_bullish fair_value_gaps)
         @ tag_once ''Price Approaching Bearish Fair Value Gap''
             (\<lambda>g. last_price > gp_top g \<and> (last_price - gp_top g) / last_price < 0.005)
             (fv_bearish fair_value_gaps)))"

subsection \<open>Support and resistance\<close>

text \<open>
  A failure of the merge is caught by the function's handler, which returns the lists as
  they are at that moment.
\<close>

definition ict_find_support_resistance ::
  "frame \<Rightarrow> liquidity_levels \<Rightarrow> blocks \<Rightarrow> real list \<times> real list" where
  "ict_find_support_resistance df liquidity_levels order_blocks =
     (let last_price = b_close (last df);
          support =
            map ll_price (filter (\<lambda>level. ll_price level < last_price)
                            (lq_buy_side liquidity_levels))
            @ concat (map (\<lambda>b. if bk_top b < last_price then [bk_top b, bk_bottom b] else [])
                        (bl_bullish order_blocks));
          resistance =
            map ll_price (filter (\<lambda>level. ll_price level > last_price)
                            (lq_sell_side liquidity_levels))
            @ concat (map (\<lambda>b. if bk_bottom b > last_price then [bk_top b, bk_bottom b] else [])
                        (bl_bearish order_blocks))
      in case merge_if_any support of
           Inl e \<Rightarrow> (support, resistance)
         | Inr merged_support \<Rightarrow>
             (case merge_if_any resistance of
                Inl e \<Rightarrow> (merged_support, resistance)
              | Inr merged_resistance \<Rightarrow> (merged_support, merged_resistance)))"

subsection \<open>Signal\<close>

record ict_analysis =
  ia_symbol :: string
  ia_timeframe :: string
  ia_liquidity_levels :: liquidity_levels
  ia_order_blocks :: blocks
  ia_breaker_blocks :: blocks
  ia_fair_value_gaps :: gaps
  ia_patterns :: "string list"
  ia_support_levels :: "real list"
  ia_resistance_levels :: "real list"
  ia_signal :: string
  ia_strength :: real

definition liquidity_points :: "real \<Rightarrow> (real \<Rightarrow> real) \<Rightarrow> liquidity_level list \<Rightarrow> real" where
  "liquidity_points last_price diff levels =
     sum_list (map (\<lambda>level.
       (let diff_pct = diff (ll_price level) / last_price in
        if - 0.005 < diff_pct \<and> diff_pct < 0.002 then 2 * ll_strength level
        else if 0.002 \<le> diff_pct \<and> diff_pct < 0.01 then 1 * ll_strength level
        else 0)) levels)"

definition ict_scores :: "real \<Rightarrow> liquidity_levels \<Rightarrow> blocks \<Rightarrow> gaps \<Rightarrow> string list \<Rightarrow> real \<times> real" where
  "ict_scores last_price liquidity_levels order_blocks fair_value_gaps patterns =
     (let buy_score =
            liquidity_points last_price (\<lambda>price. last_price - price)
              (lq_buy_side liquidity_levels)
            + sum_list (map (\<lambda>block.
                if bk_bottom block \<le> last_price \<and> last_price \<le> bk_top block
                  then 3 * bk_strength block
                else if 0 < (last_price - bk_top block) / last_price
                        \<and> (last_price - bk_top block) / last_price < 0.005
                  then 1.5 * bk_strength block
                else 0) (bl_bullish order_blocks))
            + sum_list (map (\<lambda>g.
                if last_price < gp_bottom g \<and> (gp_bottom g - last_price) / last_price < 0.005
                  then 2 * gp_strength g
                else if gp_bottom g \<le> last_price \<and> last_price \<le> gp_top g
                  then 1 * gp_strength g
                else 0) (fv_bullish fair_value_gaps))
            + sum_list (map (\<lambda>pattern. if str_in ''Bullish'' pattern then 2 else 0) patterns);
          sell_score =
            liquidity_points last_price (\<lambda>price. price - last_price)
              (lq_sell_side liquidity_levels)
            + sum_list (map (\<lambda>block.
                if bk_bottom block \<le> last_price \<and> last_price \<le> bk_top block
                  then 3 * bk_strength block
                else if 0 < (bk_bottom block - last_price) / last_price
                        \<and> (bk_bottom block - last_price) / last_price < 0.005
                  then 1.5 * bk_strength block
                else 0) (bl_bearish order_blocks))
            + sum_list (map (\<lambda>g.
                if last_price > gp_top g \<and> (last_price - gp_top g) / last_price < 0.005
                  then 2 * gp_strength g
                else if gp_bottom g \<le> last_price \<and> last_price \<le> gp_top g
                  then 1 * gp_strength g
                else 0) (fv_bearish fair_value_gaps))
            + sum_list (map (\<lambda>pattern. if str_in ''Bullish'' pattern then 0
                                         else if str_in ''Bearish'' pattern then 2 else 0)
                          patterns)
      in (buy_score, sell_score))"

definition ict_generate_signal ::
  "frame \<Rightarrow> liquidity_levels \<Rightarrow> blocks \<Rightarrow> gaps \<Rightarrow> string list \<Rightarrow> string \<times> real" where
  "ict_generate_signal df liquidity_levels order_blocks fair_value_gaps patterns =
     (if df = [] then (''neutral'', 0)
      else case ict_scores (b_close (last df)) liquidity_levels order_blocks fair_value_gaps
                  patterns of
        (buy_score, sell_score) \<Rightarrow>
          if buy_score > sell_score + 2 then (''buy'', min 100 (buy_score * 10))
          else if sell_score > buy_score + 2 then (''sell'', min 100 (sell_score * 10))
          else (''neutral'', 0))"

subsection \<open>The analysis of one timeframe\<close>

datatype analysis_failure = NoData | Failed py_error

text \<open>
  \<open>history symbol timeframe\<close> is the frame the data manager returns, or the exception it
  raises. \<^verbatim>\<open>analyze\<close> catches every exception and returns a dictionary that holds only
  an \<^verbatim>\<open>error\<close> entry.
\<close>

definition ict_analyze ::
  "(string \<Rightarrow> string \<Rightarrow> py_error + frame) \<Rightarrow> string \<Rightarrow> string
     \<Rightarrow> analysis_failure + ict_analysis" where
  "ict_analyze history symbol timeframe =
     (case history symbol timeframe of
        Inl e \<Rightarrow> Inl (Failed e)
      | Inr df \<Rightarrow>
          if df = [] then Inl NoData
          else
            (let liquidity_levels = find_liquidity_levels df;
                 order_blocks = find_order_blocks df;
                 breaker_blocks = find_breaker_blocks df;
                 fair_value_gaps = find_fair_value_gaps df;
                 patterns = identify_ict_patterns df liquidity_levels order_blocks
                              fair_value_gaps;
                 (support, resistance) =
                   ict_find_support_resistance df liquidity_levels order_blocks;
                 (signal, strength) =
                   ict_generate_signal df liquidity_levels order_blocks fair_value_gaps
                     patterns
             in Inr \<lparr> ia_symbol = symbol, ia_timeframe = timeframe,
                       ia_liquidity_levels = liquidity_levels,
                       ia_order_blocks = order_blocks,
                       ia_breaker_blocks = breaker_blocks,
                       ia_fair_value_gaps = fair_value_gaps,
                       ia_patterns = patterns,
                       ia_support_levels = support,
                       ia_resistance_levels = resistance,
                       ia_signal = signal,
                       ia_strength = strength \<rparr>))"

subsection \<open>A short frame with a gap\<close>

text \<open>
  Ten bars: eight quiet bars between 1000 and 1001, one bar that runs from 1001 to 1011,
  and a last bar between 1011 and 1012 that closes at 1011. The high of the eighth bar
  and the low of the tenth leave a gap from 1001 to 1011.
\<close>

definition quiet_bar :: bar where
  "quiet_bar = \<lparr> b_open = 1000, b_high = 1001, b_low = 1000, b_close = 1000 \<rparr>"

definition gap_frame :: frame where
  "gap_frame =
     replicate 8 quiet_bar
     @ [\<lparr> b_open = 1001, b_high = 1011, b_low = 1001, b_close = 1011 \<rparr>,
        \<lparr> b_open = 1012, b_high = 1012, b_low = 1011, b_close = 1011 \<rparr>]"

definition no_blocks :: blocks where
  "no_blocks = \<lparr> bl_bullish = [], bl_bearish = [] \<rparr>"

definition no_liquidity :: liquidity_levels where
  "no_liquidity = \<lparr> lq_buy_side = [], lq_sell_side = [] \<rparr>"

definition no_gaps :: gaps where
  "no_gaps = \<lparr> fv_bullish = [], fv_bearish = [] \<rparr>"

section \<open>Properties of the level merger\<close>

lemma separated_mono:
  assumes "0 < a" "a \<le> b" "b \<le> b'" "separated th a b"
  shows "separated th a b'"
proof -
  have "\<bar>b - a\<bar> / a \<le> \<bar>b' - a\<bar> / a"
    using assms(1-3) by (intro divide_right_mono) auto
  with assms(4) show ?thesis
    unfolding separated_def by linarith
qed

lemma merge_loop_invariant:
  assumes "merged \<noteq> []" "sorted (merged @ rest)" "\<forall>x\<in>set (merged @ rest). 0 < x"
    "well_separated th merged"
  shows "\<exists>out. merge_loop th merged rest = Inr out \<and> out \<noteq> [] \<and> sorted out
           \<and> well_separated th out \<and> (\<forall>x\<in>set out. 0 < x)"
  using assms
proof (induction rest arbitrary: merged)
  case Nil
  then show ?case by simp
next
  case (Cons level rest)
  obtain bs m where ms: "merged = bs @ [m]"
    using Cons.prems(1) by (metis append_butlast_last_id)
  have mpos: "0 < m" using Cons.prems(3) ms by simp
  have lpos: "0 < level" using Cons.prems(3) by simp
  have mle: "m \<le> level" using Cons.prems(2) ms by (simp add: sorted_append)
  show ?case
  proof (cases "\<bar>level - m\<bar> / m \<le> th")
    case True
    let ?avg = "(m + level) / 2"
    have m1: "m \<le> ?avg" and m2: "?avg \<le> level" using mle by simp_all
    have s: "sorted ((bs @ [?avg]) @ rest)"
      using Cons.prems(2) ms m1 m2 by (fastforce simp: sorted_append)
    have p: "\<forall>x\<in>set ((bs @ [?avg]) @ rest). 0 < x"
      using Cons.prems(3) ms mpos lpos by auto
    have w: "well_separated th (bs @ [?avg])"
    proof (cases "bs = []")
      case True
      then show ?thesis by (simp add: well_separated_def)
    next
      case False
      have "0 < last bs" using Cons.prems(3) ms False by simp
      moreover have "last bs \<le> m" using Cons.prems(2) ms False
        by (simp add: sorted_append)
      moreover have "separated th (last bs) m" and "successively (separated th) bs"
        using Cons.prems(4) ms False
        by (simp_all add: well_separated_def successively_append_iff)
      ultimately show ?thesis using False m1
        by (simp add: well_separated_def successively_append_iff separated_mono)
    qed
    from Cons.IH[OF _ s p w] True mpos ms show ?thesis by simp
  next
    case False
    have s: "sorted ((merged @ [level]) @ rest)" using Cons.prems(2) by simp
    have p: "\<forall>x\<in>set ((merged @ [level]) @ rest). 0 < x" using Cons.prems(3) by simp
    have w: "well_separated th (merged @ [level])"
      using Cons.prems(4) False ms
      by (simp add: well_separated_def successively_append_iff separated_def)
    from Cons.IH[OF _ s p w] False mpos ms show ?thesis by simp
  qed
qed

lemma merge_loop_fixed:
  assumes "merged \<noteq> []" "\<forall>x\<in>set (merged @ rest). 0 < x"
    "well_separated th (merged @ rest)"
  shows "merge_loop th merged rest = Inr (merged @ rest)"
  using assms
proof (induction rest arbitrary: merged)
  case Nil
  then show ?case by simp
next
  case (Cons level rest)
  have mpos: "0 < last merged" using Cons.prems(1,2) by simp
  have sep: "separated th (last merged) level"
    using Cons.prems(1,3) by (simp add: well_separated_def successively_append_iff)
  have "merge_loop th (merged @ [level]) rest = Inr ((merged @ [level]) @ rest)"
    using Cons.prems by (intro Cons.IH) simp_all
  then show ?case using mpos sep by (simp add: separated_def)
qed

lemma merge_levels_eq: "merge_levels levels th = merge_close_levels levels th"
  by (simp add: merge_levels_def merge_close_levels_def)

lemma merge_close_levels_positive:
  assumes "\<forall>x\<in>set levels. 0 < x"
  shows "\<exists>out. merge_close_levels levels th = Inr out \<and> (out = [] \<longleftrightarrow> levels = [])
           \<and> sorted out \<and> well_separated th out \<and> (\<forall>x\<in>set out. 0 < x)"
proof (cases "levels = []")
  case True
  then show ?thesis by (simp add: merge_close_levels_def well_separated_def)
next
  case False
  let ?s = "sort levels"
  have ne: "?s \<noteq> []" using False by (metis length_0_conv length_sort)
  then have split: "[hd ?s] @ tl ?s = ?s" by simp
  have "sorted ([hd ?s] @ tl ?s)" and "\<forall>x\<in>set ([hd ?s] @ tl ?s). 0 < x"
    unfolding split using assms by simp_all
  then have "\<exists>out. merge_loop th [hd ?s] (tl ?s) = Inr out \<and> out \<noteq> [] \<and> sorted out
           \<and> well_separated th out \<and> (\<forall>x\<in>set out. 0 < x)"
    by (intro merge_loop_invariant) (simp_all add: well_separated_def)
  then show ?thesis using False by (auto simp: merge_close_levels_def Let_def)
qed

lemma merge_close_levels_fixed:
  assumes "sorted out" "well_separated th out" "\<forall>x\<in>set out. 0 < x"
  shows "merge_close_levels out th = Inr out"
proof (cases "out = []")
  case True
  then show ?thesis by (simp add: merge_close_levels_def)
next
  case False
  have so: "sort out = out" using assms(1) by (simp add: sort_key_id_if_sorted)
  have "merge_loop th [hd out] (tl out) = Inr ([hd out] @ tl out)"
    by (rule merge_loop_fixed) (use assms False in simp_all)
  then show ?thesis using False so by (simp add: merge_close_levels_def)
qed

text \<open>
  C5. For positive price levels and any tolerance, the merger returns (it does not raise),
  its output is sorted ascending, adjacent output levels are further apart than the
  tolerance relative to the lower one, and merging the output again gives the output back.
  \<^verbatim>\<open>AnalysisEngine._merge_levels\<close> computes the same list.
\<close>

theorem merge_close_levels_sorted_separated_idempotent:
  assumes "\<forall>x\<in>set levels. 0 < x"
  shows "\<exists>merged. merge_close_levels levels threshold = Inr merged
           \<and> merge_levels levels threshold = Inr merged
           \<and> sorted merged \<and> well_separated threshold merged
           \<and> merge_close_levels merged threshold = Inr merged"
proof -
  obtain out where out: "merge_close_levels levels threshold = Inr out" "sorted out"
      "well_separated threshold out" "\<forall>x\<in>set out. 0 < x"
    using merge_close_levels_positive[OF assms] by blast
  have "merge_close_levels out threshold = Inr out"
    using out(2-4) by (rule merge_close_levels_fixed)
  with out show ?thesis by (simp add: merge_levels_eq)
qed

theorem merge_close_levels_sorted_separated_idempotent_witness:
  "merge_close_levels [1.1000, 1.1003, 1.1050] 0.0005 = Inr [1.10015, 1.1050]
   \<and> merge_levels [1.1000, 1.1003, 1.1050] 0.0005 = Inr [1.10015, 1.1050]
   \<and> sorted [1.10015, 1.1050 :: real] \<and> well_separated 0.0005 [1.10015, 1.1050]
   \<and> merge_close_levels [1.10015, 1.1050] 0.0005 = Inr [1.10015, 1.1050]"
proof -
  have positive: "\<forall>x\<in>set [1.1000, 1.1003, 1.1050 :: real]. 0 < x"
    by simp
  show ?thesis
    using merge_close_levels_sorted_separated_idempotent [OF positive, of "0.0005"]
    by (simp add: merge_close_levels_def)
qed

section \<open>Properties of the timeframe summarizer\<close>

lemma merge_if_any_positive:
  assumes "\<forall>x\<in>set levels. 0 < x"
  shows "\<exists>out. merge_if_any levels = Inr out"
  using merge_close_levels_positive[OF assms, of default_merge_threshold]
  by (auto simp: merge_if_any_def merge_levels_eq)

text \<open>
  C6, as the code has it. The summarizer counts the buy votes and the sell votes among the
  three detector signals; a neutral (or any other) signal is no vote. The direction is the
  side with more votes, else neutral. Confidence is "high" exactly when all three signals
  are buy or all three are sell, "medium" exactly when two of them are buy or two are sell,
  and "low" otherwise. The strength is the arithmetic mean of the three strengths.
\<close>

theorem timeframe_summary_vote:
  assumes "positive_levels r"
  shows "\<exists>s. create_timeframe_summary r = Inr s
    \<and> (let buys = count_signals ''buy'' (votes r); sells = count_signals ''sell'' (votes r) in
         ts_signal s = (if buys > sells then ''buy''
                        else if sells > buys then ''sell'' else ''neutral'')
       \<and> (ts_confidence s = ''high''
            \<longleftrightarrow> votes r = [''buy'', ''buy'', ''buy''] \<or> votes r = [''sell'', ''sell'', ''sell''])
       \<and> (ts_confidence s = ''medium'' \<longleftrightarrow> buys = 2 \<or> sells = 2)
       \<and> (ts_confidence s = ''low'' \<longleftrightarrow> buys < 2 \<and> sells < 2))
    \<and> ts_strength s = (dict_get (dr_strength (tr_ict r)) 0
                        + dict_get (dr_strength (tr_smc r)) 0
                        + dict_get (dr_strength (tr_price_action r)) 0) / 3"
proof -
  let ?sup = "concat (map (\<lambda>d. dict_get (dr_support_levels d) []) (strategies r))"
  let ?res = "concat (map (\<lambda>d. dict_get (dr_resistance_levels d) []) (strategies r))"
  have "\<forall>x\<in>set ?sup. 0 < x"
    using assms by (auto simp: positive_levels_def list_all_iff)
  then obtain sup where sup: "merge_if_any ?sup = Inr sup"
    using merge_if_any_positive by blast
  have "\<forall>x\<in>set ?res. 0 < x"
    using assms by (auto simp: positive_levels_def list_all_iff)
  then obtain res where res: "merge_if_any ?res = Inr res"
    using merge_if_any_positive by blast
  show ?thesis
    using sup res
    by (simp add: create_timeframe_summary_def Let_def votes_def strategies_def
        count_signals_def)
qed

text \<open>The example of the specification: buy, buy, sell with strengths 80, 60, 50.\<close>

theorem timeframe_summary_vote_witness:
  "positive_levels (three_results (plain_result ''buy'' 80) (plain_result ''buy'' 60)
       (plain_result ''sell'' 50))
   \<and> map_sum id (\<lambda>s. (ts_signal s, ts_confidence s, ts_strength s))
        (create_timeframe_summary (three_results (plain_result ''buy'' 80)
           (plain_result ''buy'' 60) (plain_result ''sell'' 50)))
      = Inr (''buy'', ''medium'', 190 / 3)"
proof -
  let ?r = "three_results (plain_result ''buy'' 80) (plain_result ''buy'' 60)
       (plain_result ''sell'' 50)"
  have positive: "positive_levels ?r"
    by (simp add: positive_levels_def strategies_def three_results_def plain_result_def
        dict_get_def)
  obtain s where s: "create_timeframe_summary ?r = Inr s"
      "ts_signal s = ''buy''" "ts_confidence s = ''medium''" "ts_strength s = 190 / 3"
    using timeframe_summary_vote [OF positive]
    by (auto simp: Let_def votes_def strategies_def three_results_def plain_result_def
        dict_get_def count_signals_def)
  with positive show ?thesis by simp
qed

text \<open>
  As the claim words it, C6 fails: three neutral detectors agree, and the confidence is
  "low", not "high"; and one buy next to two neutral signals gives the direction "buy"
  although the majority is neutral.
\<close>

theorem timeframe_summary_agreement_counterexample:
  "votes (three_results (plain_result ''neutral'' 0) (plain_result ''neutral'' 0)
       (plain_result ''neutral'' 0)) = [''neutral'', ''neutral'', ''neutral'']
   \<and> map_sum id ts_confidence
        (create_timeframe_summary (three_results (plain_result ''neutral'' 0)
           (plain_result ''neutral'' 0) (plain_result ''neutral'' 0)))
      = Inr ''low''
   \<and> votes (three_results (plain_result ''buy'' 50) (plain_result ''neutral'' 0)
       (plain_result ''neutral'' 0)) = [''buy'', ''neutral'', ''neutral'']
   \<and> map_sum id ts_signal
        (create_timeframe_summary (three_results (plain_result ''buy'' 50)
           (plain_result ''neutral'' 0) (plain_result ''neutral'' 0)))
      = Inr ''buy''"
  by (simp add: create_timeframe_summary_def Let_def votes_def strategies_def
      three_results_def plain_result_def dict_get_def count_signals_def merge_if_any_def)

section \<open>Properties of the cross-timeframe aggregator\<close>

lemma map_of_scaled:
  "map_of (map (\<lambda>(tf, w). if tf \<in> S then (tf, w / t) else (tf, w)) ws) k
     = map_option (\<lambda>w. if k \<in> S then w / t else w) (map_of ws k)"
  by (induction ws) auto

lemma weight_of_normalized:
  assumes "0 < total_weight present" "tf \<in> set present"
  shows "weight_of (normalized_weights present) tf
           = weight_of timeframe_weights tf / total_weight present"
  using assms
  by (simp add: normalized_weights_def weight_of_def map_of_scaled dict_get_def
      split: option.splits)

lemma known_weight_positive:
  assumes "tf \<in> set known_timeframes"
  shows "0 < weight_of timeframe_weights tf"
  using assms
  by (auto simp: known_timeframes_def timeframe_weights_def weight_of_def dict_get_def)

lemma sum_list_positive:
  fixes f :: "'a \<Rightarrow> real"
  assumes "xs \<noteq> []" "\<forall>x\<in>set xs. 0 < f x"
  shows "0 < sum_list (map f xs)"
  using assms
proof (induction xs)
  case Nil
  then show ?case by simp
next
  case (Cons a xs)
  have "0 \<le> sum_list (map f xs)"
    using Cons.prems(2) by (intro sum_list_nonneg) (auto simp: less_imp_le)
  moreover have "0 < f a" using Cons.prems(2) by simp
  ultimately show ?case by simp
qed

lemma sum_list_divide:
  fixes f :: "'a \<Rightarrow> real"
  shows "sum_list (map (\<lambda>x. f x / t) xs) = sum_list (map f xs) / t"
  by (induction xs) (simp_all add: add_divide_distrib)

text \<open>
  C7. For a non-empty collection of present timeframes, all among M5, M15, H1, H4 and D1,
  the renormalized weights of the present timeframes sum to 1 (exactly, over the reals).
\<close>

theorem normalized_weights_sum_to_one:
  assumes "present \<noteq> []" "set present \<subseteq> set known_timeframes"
  shows "sum_list (map (weight_of (normalized_weights present)) present) = 1"
proof -
  have pos: "0 < total_weight present"
    unfolding total_weight_def using assms
    by (intro sum_list_positive) (auto intro: known_weight_positive)
  have "map (weight_of (normalized_weights present)) present
          = map (\<lambda>tf. weight_of timeframe_weights tf / total_weight present) present"
    using pos by (simp add: weight_of_normalized)
  then have "sum_list (map (weight_of (normalized_weights present)) present)
          = sum_list (map (weight_of timeframe_weights) present) / total_weight present"
    by (simp only: sum_list_divide)
  then have "sum_list (map (weight_of (normalized_weights present)) present)
          = total_weight present / total_weight present"
    by (simp only: total_weight_def)
  with pos show ?thesis by simp
qed

theorem normalized_weights_sum_to_one_witness:
  "[''M15'', ''H1'', ''H4''] \<noteq> [] \<and> set [''M15'', ''H1'', ''H4''] \<subseteq> set known_timeframes
   \<and> map (weight_of (normalized_weights [''M15'', ''H1'', ''H4''])) [''M15'', ''H1'', ''H4'']
       = [1 / 6, 1 / 3, 1 / 2]
   \<and> sum_list (map (weight_of (normalized_weights [''M15'', ''H1'', ''H4'']))
        [''M15'', ''H1'', ''H4'']) = 1"
proof -
  have present: "[''M15'', ''H1'', ''H4''] \<noteq> []"
    "set [''M15'', ''H1'', ''H4''] \<subseteq> set known_timeframes"
    by (simp_all add: known_timeframes_def timeframe_weights_def)
  have "map (weight_of (normalized_weights [''M15'', ''H1'', ''H4'']))
          [''M15'', ''H1'', ''H4''] = [1 / 6, 1 / 3, 1 / 2]"
    by (simp add: normalized_weights_def weight_of_def total_weight_def
        timeframe_weights_def dict_get_def)
  with present normalized_weights_sum_to_one [OF present] show ?thesis
    by simp
qed

text \<open>
  C4, as the code has it. With a news impact to read, the aggregator adds
  \<open>0.1 * min \<bar>impact\<bar> 1\<close> to the buy accumulator when the impact is positive and to the
  sell accumulator when it is negative, and nothing when it is zero. The impact is cut at
  magnitude 1.0 before it is scaled, so the term is \<open>min (0.1 * \<bar>impact\<bar>) 0.1\<close> and
  never exceeds 0.1.
\<close>

theorem sentiment_term_added:
  assumes "ar_news results = Some n" "nr_impact n = Some impact"
    "vote_weights (normalized_weights (map fst (ar_timeframes results)))
       (ar_timeframes results) (0, 0) = (buy_votes, sell_votes)"
  shows "accumulated_weights results =
           (if impact > 0 then (buy_votes + min (0.1 * \<bar>impact\<bar>) 0.1, sell_votes, impact)
            else if impact < 0 then (buy_votes, sell_votes + min (0.1 * \<bar>impact\<bar>) 0.1, impact)
            else (buy_votes, sell_votes, impact))
         \<and> min (0.1 * \<bar>impact\<bar>) 0.1 = 0.1 * min \<bar>impact\<bar> 1
         \<and> 0 \<le> min (0.1 * \<bar>impact\<bar>) 0.1 \<and> min (0.1 * \<bar>impact\<bar>) 0.1 \<le> 0.1"
  using assms by (auto simp: accumulated_weights_def min_def)

theorem sentiment_term_added_witness:
  "ar_news (news_only (- 0.5)) = Some \<lparr> nr_impact = Some (- 0.5) \<rparr>
   \<and> accumulated_weights (news_only (- 0.5)) = (0, 0.05, - 0.5)"
proof -
  have news: "ar_news (news_only (- 0.5)) = Some \<lparr> nr_impact = Some (- 0.5) \<rparr>"
    "nr_impact \<lparr> nr_impact = Some (- 0.5 :: real) \<rparr> = Some (- 0.5)"
    by (simp_all add: news_only_def)
  have votes: "vote_weights (normalized_weights (map fst (ar_timeframes (news_only (- 0.5)))))
       (ar_timeframes (news_only (- 0.5))) (0, 0) = (0, 0)"
    by (simp add: news_only_def)
  show ?thesis
    using sentiment_term_added [OF news votes] news(1) by simp
qed

text \<open>
  As the claim words it, C4 fails: at an impact of 5 the code adds 0.1 to the buy
  accumulator, not \<open>min (0.1 * 5) 1.0 = 0.5\<close>.
\<close>

theorem sentiment_term_counterexample:
  "accumulated_weights (news_only 5) = (0.1, 0, 5)
   \<and> min (0.1 * \<bar>5 :: real\<bar>) 1.0 = 0.5
   \<and> fst (accumulated_weights (news_only 5)) \<noteq> 0 + min (0.1 * \<bar>5 :: real\<bar>) 1.0"
  by (simp add: accumulated_weights_def news_only_def)

text \<open>The success probability of the aggregator is clamped to the range 0 to 100.\<close>

lemma success_probability_clamped:
  "0 \<le> calculate_success_probability results signal signal_strength
   \<and> calculate_success_probability results signal signal_strength \<le> 100"
  by (simp add: calculate_success_probability_def Let_def)

section \<open>The price-action signal\<close>

text \<open>
  C3 at a concrete analysis. The buy score is 25.5 and the sell score 23.5; they differ
  by less than the margin of 3, so the signal is neutral, and the neutral branch returns
  five times the larger score without the cap at 100 that the buy and sell branches have.
\<close>

theorem pa_generate_signal_neutral_strength:
  "pa_scores 1.1 contested_analysis = (25.5, 23.5)
   \<and> pa_generate_signal [1.1] contested_analysis = (''neutral'', 127.5)"
  by (simp add: pa_generate_signal_def pa_scores_def contested_analysis_def candle_def
      dict_get_def)

text \<open>The buy and sell branches are capped at 100.\<close>

lemma pa_generate_signal_directional_capped:
  assumes "pa_generate_signal closes analysis_results = (signal, strength)"
    "signal \<noteq> ''neutral''"
  shows "strength \<le> 100"
  using assms
  by (auto simp: pa_generate_signal_def split: if_splits prod.splits)

section \<open>Properties of signal fusion\<close>






section \<open>Properties of the risk manager\<close>

subsection \<open>Lazy reset of the counters\<close>












subsection \<open>The daily ceiling\<close>












subsection \<open>The example of the specification\<close>




















section \<open>Properties of the signal store\<close>

lemma apply_status_fields:
  "cs_id (apply_status now status details signal) = cs_id signal"
  "cs_status (apply_status now status details signal) = status"
  by (simp_all add: apply_status_def Let_def)



lemma ids_update_first:
  assumes "\<And>s. cs_id (f s) = cs_id s"
  shows "map cs_id (update_first signal_id f history) = map cs_id history"
  using assms by (induction history) auto






lemma status_update_ids:
  "map cs_id (snd (update_signal_status now signal_id status details history))
     = map cs_id history"
  by (simp add: update_signal_status_def ids_update_first apply_status_fields
      split: option.splits)







section \<open>Properties of the liquidity and order-block detector\<close>

lemma short_frame_liquidity:
  "length df < 30 \<Longrightarrow> find_liquidity_levels df = no_liquidity"
  by (simp add: find_liquidity_levels_def no_liquidity_def)

lemma short_frame_order_blocks:
  "length df < 20 \<Longrightarrow> find_order_blocks df = no_blocks"
  by (simp add: find_order_blocks_def no_blocks_def)

lemma short_frame_breaker_blocks:
  "length df < 50 \<Longrightarrow> find_breaker_blocks df = no_blocks"
  by (simp add: find_breaker_blocks_def no_blocks_def)

lemma short_frame_gaps:
  "length df < 10 \<Longrightarrow> find_fair_value_gaps df = no_gaps"
  by (simp add: find_fair_value_gaps_def no_gaps_def)

lemma no_structures_no_patterns:
  "identify_ict_patterns df no_liquidity no_blocks no_gaps = []"
  by (simp add: identify_ict_patterns_def liquidity_sweep_def delivery_area_def tag_each_def
      tag_once_def no_liquidity_def no_blocks_def no_gaps_def Let_def)

lemma no_structures_no_levels:
  "ict_find_support_resistance df no_liquidity no_blocks = ([], [])"
  by (simp add: ict_find_support_resistance_def merge_if_any_def no_liquidity_def
      no_blocks_def Let_def)

lemma no_structures_neutral:
  "ict_generate_signal df no_liquidity no_blocks no_gaps [] = (''neutral'', 0)"
  by (simp add: ict_generate_signal_def ict_scores_def liquidity_points_def no_liquidity_def
      no_blocks_def no_gaps_def Let_def)

lemma very_short_frame_analysis:
  assumes "history symbol timeframe = Inr df" "df \<noteq> []" "length df < 10"
  shows "ict_analyze history symbol timeframe =
           Inr \<lparr> ia_symbol = symbol, ia_timeframe = timeframe,
                 ia_liquidity_levels = no_liquidity, ia_order_blocks = no_blocks,
                 ia_breaker_blocks = no_blocks, ia_fair_value_gaps = no_gaps,
                 ia_patterns = [], ia_support_levels = [], ia_resistance_levels = [],
                 ia_signal = ''neutral'', ia_strength = 0 \<rparr>"
  using assms
  by (simp add: ict_analyze_def short_frame_liquidity short_frame_order_blocks
      short_frame_breaker_blocks short_frame_gaps no_structures_no_patterns
      no_structures_no_levels no_structures_neutral)

text \<open>
  C10, as the code has it. Every sub-feature of the detector returns empty structure lists
  on a frame shorter than its own minimum: 30 bars for liquidity levels, 20 for order
  blocks, 50 for breaker blocks, 10 for fair-value gaps. On a non-empty frame shorter than
  all of them, that is with fewer than 10 bars, \<^verbatim>\<open>analyze\<close> returns empty structure
  lists throughout and a neutral signal of strength 0. It never raises: an empty frame and
  a failure of the data manager come back as an error result.
\<close>

theorem ict_short_frames_degrade:
  "(length df < 30 \<longrightarrow> find_liquidity_levels df = no_liquidity)
   \<and> (length df < 20 \<longrightarrow> find_order_blocks df = no_blocks)
   \<and> (length df < 50 \<longrightarrow> find_breaker_blocks df = no_blocks)
   \<and> (length df < 10 \<longrightarrow> find_fair_value_gaps df = no_gaps)
   \<and> (history symbol timeframe = Inr df \<and> df \<noteq> [] \<and> length df < 10
        \<longrightarrow> ict_analyze history symbol timeframe =
              Inr \<lparr> ia_symbol = symbol, ia_timeframe = timeframe,
                    ia_liquidity_levels = no_liquidity, ia_order_blocks = no_blocks,
                    ia_breaker_blocks = no_blocks, ia_fair_value_gaps = no_gaps,
                    ia_patterns = [], ia_support_levels = [], ia_resistance_levels = [],
                    ia_signal = ''neutral'', ia_strength = 0 \<rparr>)
   \<and> (history symbol timeframe = Inr []
        \<longrightarrow> ict_analyze history symbol timeframe = Inl NoData)
   \<and> (\<forall>e. history symbol timeframe = Inl e
        \<longrightarrow> ict_analyze history symbol timeframe = Inl (Failed e))"
  using very_short_frame_analysis[of history symbol timeframe df]
  by (simp add: short_frame_liquidity short_frame_order_blocks short_frame_breaker_blocks
      short_frame_gaps ict_analyze_def)

text \<open>Five quiet bars: every list is empty and the signal is neutral.\<close>

theorem ict_short_frames_degrade_witness:
  "length (replicate 5 quiet_bar) = 5
   \<and> ict_analyze (\<lambda>symbol timeframe. Inr (replicate 5 quiet_bar)) ''EURUSD'' ''H1'' =
       Inr \<lparr> ia_symbol = ''EURUSD'', ia_timeframe = ''H1'',
             ia_liquidity_levels = no_liquidity, ia_order_blocks = no_blocks,
             ia_breaker_blocks = no_blocks, ia_fair_value_gaps = no_gaps,
             ia_patterns = [], ia_support_levels = [], ia_resistance_levels = [],
             ia_signal = ''neutral'', ia_strength = 0 \<rparr>
   \<and> find_liquidity_levels (replicate 5 quiet_bar) = no_liquidity"
proof -
  have short: "(\<lambda>symbol timeframe. Inr (replicate 5 quiet_bar)) ''EURUSD'' ''H1''
                 = (Inr (replicate 5 quiet_bar) :: py_error + frame)
               \<and> replicate 5 quiet_bar \<noteq> [] \<and> length (replicate 5 quiet_bar) < 10"
    "length (replicate 5 quiet_bar) < 30"
    by simp_all
  show ?thesis
    using short
      ict_short_frames_degrade [of "replicate 5 quiet_bar"
        "\<lambda>symbol timeframe. Inr (replicate 5 quiet_bar)" "''EURUSD''" "''H1''"]
    by simp
qed

lemma gap_frame_bars:
  "gap_frame =
     [quiet_bar, quiet_bar, quiet_bar, quiet_bar, quiet_bar, quiet_bar, quiet_bar, quiet_bar,
      \<lparr> b_open = 1001, b_high = 1011, b_low = 1001, b_close = 1011 \<rparr>,
      \<lparr> b_open = 1012, b_high = 1012, b_low = 1011, b_close = 1011 \<rparr>]"
  by (simp add: gap_frame_def numeral_eq_Suc)

lemma gap_frame_facts:
  "length gap_frame = 10" "gap_frame \<noteq> []" "avg_bar_range gap_frame = 19 / 10"
  "b_close (last gap_frame) = 1011"
  by (simp_all add: gap_frame_bars avg_bar_range_def np_mean_def quiet_bar_def)

lemma gap_frame_gaps:
  "find_fair_value_gaps gap_frame =
     \<lparr> fv_bullish = [\<lparr> gp_top = 1011, gp_bottom = 1001, gp_index = 8, gp_size = 10,
                       gp_strength = 100 / 19 \<rparr>],
       fv_bearish = [] \<rparr>"
  by (simp add: find_fair_value_gaps_def gap_frame_facts(3) Let_def)
     (simp add: gap_frame_bars bullish_gap_at_def bearish_gap_at_def quiet_bar_def
        by_strength_desc_def Let_def)

lemma gap_frame_patterns:
  "identify_ict_patterns gap_frame no_liquidity no_blocks
     \<lparr> fv_bullish = [\<lparr> gp_top = 1011, gp_bottom = 1001, gp_index = 8, gp_size = 10,
                       gp_strength = 100 / 19 \<rparr>],
       fv_bearish = [] \<rparr> = []"
  by (simp add: identify_ict_patterns_def liquidity_sweep_def delivery_area_def tag_each_def
      tag_once_def no_liquidity_def no_blocks_def gap_frame_facts Let_def)

lemma gap_frame_signal:
  "ict_generate_signal gap_frame no_liquidity no_blocks
     \<lparr> fv_bullish = [\<lparr> gp_top = 1011, gp_bottom = 1001, gp_index = 8, gp_size = 10,
                       gp_strength = 100 / 19 \<rparr>],
       fv_bearish = [] \<rparr> [] = (''buy'', 1000 / 19)"
  by (simp add: ict_generate_signal_def ict_scores_def liquidity_points_def no_liquidity_def
      no_blocks_def gap_frame_facts Let_def)

text \<open>
  As the claim words it, C10 fails: the ten bars are fewer than the 30 the liquidity
  levels need, the 20 of the order blocks and the 50 of the breaker blocks, and the
  detector returns a fair-value gap and the signal "buy" with strength 1000/19.
\<close>

theorem ict_short_frame_signal_counterexample:
  "length gap_frame = 10
   \<and> ict_analyze (\<lambda>symbol timeframe. Inr gap_frame) ''EURUSD'' ''H1'' =
       Inr \<lparr> ia_symbol = ''EURUSD'', ia_timeframe = ''H1'',
             ia_liquidity_levels = no_liquidity, ia_order_blocks = no_blocks,
             ia_breaker_blocks = no_blocks,
             ia_fair_value_gaps =
               \<lparr> fv_bullish = [\<lparr> gp_top = 1011, gp_bottom = 1001, gp_index = 8,
                                 gp_size = 10, gp_strength = 100 / 19 \<rparr>],
                 fv_bearish = [] \<rparr>,
             ia_patterns = [], ia_support_levels = [], ia_resistance_levels = [],
             ia_signal = ''buy'', ia_strength = 1000 / 19 \<rparr>"
  by (simp add: ict_analyze_def gap_frame_facts short_frame_liquidity
      short_frame_order_blocks short_frame_breaker_blocks gap_frame_gaps gap_frame_patterns
      no_structures_no_levels gap_frame_signal)

end
